theory Spec2Isabelle
  imports Main
begin

section \<open>Python strings and the \<open>os.path\<close> library\<close>

text \<open>
  The converter of \<open>src/main.py\<close> manipulates path strings with Python's string
  methods and with \<open>os.path\<close>, which is \<open>posixpath\<close> on a POSIX host and
  \<open>ntpath\<close> on Windows. Both libraries are purely lexical; they are modelled here
  after their CPython 3.11 sources. Strings are \<open>char list\<close>; the backslash is
  written \<open>CHR 0x5C\<close>.
\<close>

abbreviation bslash :: char where
  "bslash \<equiv> CHR 0x5C"

datatype platform = Posix | Windows

text \<open>\<open>s.split(c)\<close> for a one-character separator: never empty.\<close>

fun split_sep :: "char \<Rightarrow> string \<Rightarrow> string list" where
  "split_sep c [] = [[]]"
| "split_sep c (x # xs) =
     (if x = c then [] # split_sep c xs
      else (case split_sep c xs of
              [] \<Rightarrow> [[x]]
            | w # ws \<Rightarrow> (x # w) # ws))"

text \<open>\<open>c.join(ws)\<close>.\<close>

fun join_sep :: "char \<Rightarrow> string list \<Rightarrow> string" where
  "join_sep c [] = []"
| "join_sep c [w] = w"
| "join_sep c (w # v # ws) = w @ c # join_sep c (v # ws)"

definition startswith :: "string \<Rightarrow> string \<Rightarrow> bool" where
  "startswith p s = (take (length p) s = p)"

definition endswith :: "string \<Rightarrow> string \<Rightarrow> bool" where
  "endswith p s = (length p \<le> length s \<and> drop (length s - length p) s = p)"

text \<open>\<open>sub in s\<close>: \<open>sub\<close> occurs in \<open>s\<close> as a contiguous substring.\<close>

fun contains :: "string \<Rightarrow> string \<Rightarrow> bool" where
  "contains sub [] = (sub = [])"
| "contains sub (x # xs) = (startswith sub (x # xs) \<or> contains sub xs)"

text \<open>\<open>s.lstrip(c)\<close> for a one-character argument.\<close>

definition lstrip :: "char \<Rightarrow> string \<Rightarrow> string" where
  "lstrip c s = dropWhile (\<lambda>x. x = c) s"

text \<open>\<open>s.replace(a, b)\<close> for single characters.\<close>

definition replace_char :: "char \<Rightarrow> char \<Rightarrow> string \<Rightarrow> string" where
  "replace_char a b s = map (\<lambda>x. if x = a then b else x) s"

text \<open>\<open>s.rfind(c)\<close>: the last index of \<open>c\<close>, or \<open>-1\<close>.\<close>

definition rfind :: "char \<Rightarrow> string \<Rightarrow> int" where
  "rfind c s =
     (if c \<in> set s then int (length s) - 1 - int (length (takeWhile (\<lambda>x. x \<noteq> c) (rev s)))
      else - 1)"

text \<open>\<open>s.find(c, start)\<close>: the first index of \<open>c\<close> at or after \<open>start\<close>.\<close>

definition find_from :: "char \<Rightarrow> nat \<Rightarrow> string \<Rightarrow> nat option" where
  "find_from c start s =
     (if c \<in> set (drop start s)
      then Some (start + length (takeWhile (\<lambda>x. x \<noteq> c) (drop start s)))
      else None)"

text \<open>\<open>upper\<close> and \<open>lower\<close> on the ASCII letters.\<close>

definition upper_char :: "char \<Rightarrow> char" where
  "upper_char c =
     (if (97::nat) \<le> of_char c \<and> of_char c \<le> (122::nat)
      then char_of (of_char c - (32::nat)) else c)"

definition lower_char :: "char \<Rightarrow> char" where
  "lower_char c =
     (if (65::nat) \<le> of_char c \<and> of_char c \<le> (90::nat)
      then char_of (of_char c + (32::nat)) else c)"

text \<open>
  \<open>genericpath.commonprefix([a, b])\<close>: the longest common leading string of the two,
  compared character by character (not segment by segment).
\<close>

fun commonprefix :: "string \<Rightarrow> string \<Rightarrow> string" where
  "commonprefix (x # xs) (y # ys) = (if x = y then x # commonprefix xs ys else [])"
| "commonprefix _ _ = []"

text \<open>
  \<open>genericpath._splitext(p, sep, altsep, '.')\<close>: the extension starts at the last dot
  of the last component, unless that component consists of leading dots only up to there.
\<close>

definition splitext_generic :: "char \<Rightarrow> char option \<Rightarrow> string \<Rightarrow> string \<times> string" where
  "splitext_generic sep altsep p =
     (let sepIndex = (case altsep of
                        None \<Rightarrow> rfind sep p
                      | Some a \<Rightarrow> max (rfind sep p) (rfind a p));
          dotIndex = rfind (CHR ''.'') p
      in if dotIndex > sepIndex \<and>
            list_ex (\<lambda>x. x \<noteq> CHR ''.'')
              (take (nat (dotIndex - (sepIndex + 1))) (drop (nat (sepIndex + 1)) p))
         then (take (nat dotIndex) p, drop (nat dotIndex) p)
         else (p, []))"

text \<open>
  The loop shared by \<open>posixpath.normpath\<close> and \<open>ntpath.normpath\<close>: empty and
  \<open>.\<close> components are skipped; \<open>..\<close> removes the component kept before it, is
  dropped at the root of a rooted path, and is kept otherwise.
\<close>

definition norm_step :: "bool \<Rightarrow> string list \<Rightarrow> string \<Rightarrow> string list" where
  "norm_step rooted new_comps cmp =
     (if cmp = [] \<or> cmp = ''.'' then new_comps
      else if cmp \<noteq> ''..'' \<or> (\<not> rooted \<and> new_comps = []) \<or>
              (new_comps \<noteq> [] \<and> last new_comps = ''..'')
           then new_comps @ [cmp]
      else if new_comps \<noteq> [] then butlast new_comps
      else new_comps)"

subsection \<open>\<open>posixpath\<close>\<close>

definition posix_isabs :: "string \<Rightarrow> bool" where
  "posix_isabs s = startswith ''/'' s"

definition posix_join2 :: "string \<Rightarrow> string \<Rightarrow> string" where
  "posix_join2 path b =
     (if startswith ''/'' b then b
      else if path = [] \<or> endswith ''/'' path then path @ b
      else path @ ''/'' @ b)"

definition posix_join :: "string \<Rightarrow> string list \<Rightarrow> string" where
  "posix_join a p = foldl posix_join2 a p"

definition posix_basename :: "string \<Rightarrow> string" where
  "posix_basename p = drop (nat (rfind (CHR ''/'') p + 1)) p"

definition posix_normpath :: "string \<Rightarrow> string" where
  "posix_normpath path =
     (if path = [] then ''.''
      else
        let initial_slashes =
              (if startswith ''/'' path
               then (if startswith ''//'' path \<and> \<not> startswith ''///'' path then 2 else 1)
               else (0::nat));
            comps = split_sep (CHR ''/'') path;
            new_comps = foldl (norm_step (initial_slashes \<noteq> 0)) [] comps;
            path' = replicate initial_slashes (CHR ''/'') @ join_sep (CHR ''/'') new_comps
        in if path' = [] then ''.'' else path')"

definition posix_abspath :: "string \<Rightarrow> string \<Rightarrow> string" where
  "posix_abspath cwd path =
     posix_normpath (if posix_isabs path then path else posix_join cwd [path])"

subsection \<open>\<open>ntpath\<close>\<close>

definition nt_seps :: "char set" where
  "nt_seps = {bslash, CHR ''/''}"

definition unc_prefix :: string where
  "unc_prefix = [bslash, bslash, CHR ''?'', bslash, CHR ''U'', CHR ''N'', CHR ''C'', bslash]"

definition nt_splitdrive :: "string \<Rightarrow> string \<times> string" where
  "nt_splitdrive p =
     (if length p \<ge> 2 then
        let normp = replace_char (CHR ''/'') bslash p
        in if take 2 normp = [bslash, bslash] then
             (let start = (if map upper_char (take 8 normp) = unc_prefix then 8 else 2)
              in case find_from bslash start normp of
                   None \<Rightarrow> (p, [])
                 | Some index \<Rightarrow>
                     (case find_from bslash (index + 1) normp of
                        None \<Rightarrow> (p, [])
                      | Some index2 \<Rightarrow> (take index2 p, drop index2 p)))
           else if take 1 (drop 1 normp) = '':'' then (take 2 p, drop 2 p)
           else ([], p)
      else ([], p))"

definition nt_isabs :: "string \<Rightarrow> bool" where
  "nt_isabs s =
     (let s3 = replace_char (CHR ''/'') bslash (take 3 s)
      in startswith [bslash] s3 \<or> startswith [CHR '':'', bslash] (drop 1 s3))"

text \<open>One round of the loop of \<open>ntpath.join\<close> on \<open>(result_drive, result_path)\<close>.\<close>

definition nt_join_step :: "string \<times> string \<Rightarrow> string \<Rightarrow> string \<times> string" where
  "nt_join_step r p =
     (let result_drive = fst r; result_path = snd r;
          p_drive = fst (nt_splitdrive p); p_path = snd (nt_splitdrive p)
      in if p_path \<noteq> [] \<and> hd p_path \<in> nt_seps then
           ((if p_drive \<noteq> [] \<or> result_drive = [] then p_drive else result_drive), p_path)
         else if p_drive \<noteq> [] \<and> p_drive \<noteq> result_drive \<and>
                 map lower_char p_drive \<noteq> map lower_char result_drive then
           (p_drive, p_path)
         else
           ((if p_drive \<noteq> [] \<and> p_drive \<noteq> result_drive then p_drive else result_drive),
            (if result_path \<noteq> [] \<and> last result_path \<notin> nt_seps
             then result_path @ [bslash] else result_path) @ p_path))"

definition nt_join :: "string \<Rightarrow> string list \<Rightarrow> string" where
  "nt_join path paths =
     (let r = foldl nt_join_step (nt_splitdrive path) paths;
          result_drive = fst r; result_path = snd r
      in if result_path \<noteq> [] \<and> hd result_path \<notin> nt_seps \<and>
            result_drive \<noteq> [] \<and> last result_drive \<noteq> CHR '':''
         then result_drive @ [bslash] @ result_path
         else result_drive @ result_path)"

definition nt_basename :: "string \<Rightarrow> string" where
  "nt_basename p = rev (takeWhile (\<lambda>x. x \<notin> nt_seps) (rev (snd (nt_splitdrive p))))"

definition nt_normpath :: "string \<Rightarrow> string" where
  "nt_normpath path =
     (let path1 = replace_char (CHR ''/'') bslash path;
          prefix0 = fst (nt_splitdrive path1); path2 = snd (nt_splitdrive path1);
          prefix = (if startswith [bslash] path2 then prefix0 @ [bslash] else prefix0);
          path3 = (if startswith [bslash] path2 then lstrip bslash path2 else path2);
          comps = foldl (norm_step (endswith [bslash] prefix)) [] (split_sep bslash path3)
      in prefix @ join_sep bslash (if prefix = [] \<and> comps = [] then [''.''] else comps))"

text \<open>
  \<open>ntpath.abspath\<close> is modelled by \<open>_abspath_fallback\<close>, the documented
  \<open>normpath(join(os.getcwd(), path))\<close>.
\<close>

definition nt_abspath :: "string \<Rightarrow> string \<Rightarrow> string" where
  "nt_abspath cwd path =
     nt_normpath (if nt_isabs path then path else nt_join cwd [path])"

subsection \<open>\<open>os.sep\<close> and \<open>os.path\<close> on the host platform\<close>

fun os_sep :: "platform \<Rightarrow> char" where
  "os_sep Posix = CHR ''/''"
| "os_sep Windows = bslash"

fun join :: "platform \<Rightarrow> string \<Rightarrow> string list \<Rightarrow> string" where
  "join Posix a p = posix_join a p"
| "join Windows a p = nt_join a p"

fun basename :: "platform \<Rightarrow> string \<Rightarrow> string" where
  "basename Posix p = posix_basename p"
| "basename Windows p = nt_basename p"

fun splitext :: "platform \<Rightarrow> string \<Rightarrow> string \<times> string" where
  "splitext Posix p = splitext_generic (CHR ''/'') None p"
| "splitext Windows p = splitext_generic bslash (Some (CHR ''/'')) p"

fun normpath :: "platform \<Rightarrow> string \<Rightarrow> string" where
  "normpath Posix p = posix_normpath p"
| "normpath Windows p = nt_normpath p"

fun abspath :: "platform \<Rightarrow> string \<Rightarrow> string \<Rightarrow> string" where
  "abspath Posix cwd p = posix_abspath cwd p"
| "abspath Windows cwd p = nt_abspath cwd p"

section \<open>Exceptions, progress events and the filesystem\<close>

text \<open>
  A Python exception is its class and its \<open>str(e)\<close>. The classes told apart are the
  ones the source tells apart: \<open>RuntimeError\<close> (caught in \<open>_update_progress\<close>),
  \<open>BadZipFile\<close> (caught around the extraction), \<open>OSError\<close> and any other subclass
  of \<open>Exception\<close> (caught by \<open>except Exception\<close>), and the exceptions that derive
  from \<open>BaseException\<close> only (\<open>KeyboardInterrupt\<close>, \<open>SystemExit\<close>), which
  \<open>except Exception\<close> lets through.
\<close>

datatype exn_class = RuntimeError | BadZipFile | OSError | OtherException | NonException

datatype exn = Exn exn_class string

fun class_of :: "exn \<Rightarrow> exn_class" where
  "class_of (Exn c s) = c"

fun str :: "exn \<Rightarrow> string" where
  "str (Exn c s) = s"

definition is_Exception :: "exn \<Rightarrow> bool" where
  "is_Exception e = (class_of e \<noteq> NonException)"

text \<open>
  The messages of the source are Chinese string literals; each is a constructor here,
  with the interpolated value as its argument:
  \<^item> \<open>Msg_extracting\<close>: line 70 (extracting the files);
  \<^item> \<open>Msg_invalid_zip\<close>: line 76 (error: invalid ZIP file format);
  \<^item> \<open>Msg_missing_dir app_dir\<close>: line 95 (error: resource directory missing);
  \<^item> \<open>Msg_packing\<close>: line 99 (packing the SB3 file);
  \<^item> \<open>Msg_write_error (str e)\<close>: line 110 (write error);
  \<^item> \<open>Msg_cleaning\<close>: line 114 (cleaning the temporary files);
  \<^item> \<open>Msg_done\<close>: line 117 (conversion finished);
  \<^item> \<open>Msg_unexpected (str e)\<close>: line 121 (unexpected error);
  \<^item> \<open>Msg_cleanup_failed (str e)\<close>: line 144, printed (cleaning the directory failed).
\<close>

datatype message =
    Msg_extracting
  | Msg_invalid_zip
  | Msg_missing_dir string
  | Msg_packing
  | Msg_write_error string
  | Msg_cleaning
  | Msg_done
  | Msg_unexpected string
  | Msg_cleanup_failed string

type_synonym event = "int \<times> message"

text \<open>
  A progress callback sees the invocations made so far and the present one; it returns
  normally (\<open>None\<close>) or raises. It does not touch the filesystem.
\<close>

type_synonym callback = "event list \<Rightarrow> int \<Rightarrow> message \<Rightarrow> exn option"

text \<open>
  The filesystem is a tree of directories and regular files (no symbolic links; names
  are compared exactly). The bytes of a file are either not a zip container
  (\<open>Raw\<close>) or a zip container with the listed members (\<open>Zip\<close>).
\<close>

datatype content = Raw string | Zip "(string \<times> content) list"

datatype node = File content | Dir "(string \<times> node) list"

fun lookup :: "node \<Rightarrow> string list \<Rightarrow> node option" where
  "lookup t [] = Some t"
| "lookup (File c) (n # ns) = None"
| "lookup (Dir cs) (n # ns) =
     (case map_of cs n of None \<Rightarrow> None | Some c \<Rightarrow> lookup c ns)"

fun set_child :: "string \<Rightarrow> node \<Rightarrow> (string \<times> node) list \<Rightarrow> (string \<times> node) list" where
  "set_child n v [] = [(n, v)]"
| "set_child n v ((k, x) # cs) = (if k = n then (n, v) # cs else (k, x) # set_child n v cs)"

definition del_child :: "string \<Rightarrow> (string \<times> node) list \<Rightarrow> (string \<times> node) list" where
  "del_child n cs = filter (\<lambda>kx. fst kx \<noteq> n) cs"

text \<open>\<open>put l v t\<close> stores \<open>v\<close> at location \<open>l\<close>, whose parent must be a directory.\<close>

fun put :: "string list \<Rightarrow> node \<Rightarrow> node \<Rightarrow> node option" where
  "put [] v t = Some v"
| "put (n # ns) v (File c) = None"
| "put (n # ns) v (Dir cs) =
     (case map_of cs n of
        None \<Rightarrow> (if ns = [] then Some (Dir (set_child n v cs)) else None)
      | Some c \<Rightarrow> map_option (\<lambda>c'. Dir (set_child n c' cs)) (put ns v c))"

text \<open>\<open>delete l t\<close> removes the entry at location \<open>l\<close>, which must exist.\<close>

fun delete :: "string list \<Rightarrow> node \<Rightarrow> node option" where
  "delete [] t = None"
| "delete (n # ns) (File c) = None"
| "delete (n # ns) (Dir cs) =
     (case map_of cs n of
        None \<Rightarrow> None
      | Some c \<Rightarrow>
          (if ns = [] then Some (Dir (del_child n cs))
           else map_option (\<lambda>c'. Dir (set_child n c' cs)) (delete ns c)))"

text \<open>
  \<open>mkdirs l t\<close> creates the directories missing along \<open>l\<close>; it fails when a regular
  file is in the way.
\<close>

fun mkdirs :: "string list \<Rightarrow> node \<Rightarrow> node option" where
  "mkdirs ns (File c) = None"
| "mkdirs [] (Dir cs) = Some (Dir cs)"
| "mkdirs (n # ns) (Dir cs) =
     (case map_of cs n of
        None \<Rightarrow> map_option (\<lambda>c'. Dir (set_child n c' cs)) (mkdirs ns (Dir []))
      | Some c \<Rightarrow> map_option (\<lambda>c'. Dir (set_child n c' cs)) (mkdirs ns c))"

subsection \<open>The host: platform, working directory, and failures of the system\<close>

text \<open>
  Every call into the operating system may fail for reasons the tree does not show
  (permissions, a full disk, an interrupt). \<open>fault\<close> says which calls do, and how.
\<close>

datatype os_call =
    Call_makedirs string
  | Call_zip_read string
  | Call_extract string string
  | Call_zip_create string
  | Call_zip_write string string
  | Call_remove string
  | Call_rmdir string

record env =
  host :: platform
  cwd :: string
  fault :: "os_call \<Rightarrow> exn option"

definition seps :: "platform \<Rightarrow> char set" where
  "seps pf = (case pf of Posix \<Rightarrow> {CHR ''/''} | Windows \<Rightarrow> nt_seps)"

text \<open>
  The location a path string denotes: the components of its absolute, normalised form
  (so \<open>..\<close> is resolved lexically). On Windows the drive is the first component.
\<close>

definition loc :: "env \<Rightarrow> string \<Rightarrow> string list" where
  "loc env p =
     filter (\<lambda>s. s \<noteq> []) (split_sep (os_sep (host env)) (abspath (host env) (cwd env) p))"

text \<open>
  What a path names, if anything: the empty path names nothing, and a path that ends
  in a separator names directories only.
\<close>

definition stat :: "env \<Rightarrow> string \<Rightarrow> node \<Rightarrow> node option" where
  "stat env p t =
     (if p = [] then None
      else (case lookup t (loc env p) of
              Some (File c) \<Rightarrow> (if last p \<in> seps (host env) then None else Some (File c))
            | r \<Rightarrow> r))"

text \<open>\<open>os.path.exists\<close>.\<close>

definition exists :: "env \<Rightarrow> string \<Rightarrow> node \<Rightarrow> bool" where
  "exists env p t = (stat env p t \<noteq> None)"

text \<open>
  An operation on the filesystem returns the exception it raised, if any, and the
  filesystem it leaves (also when it raised).
\<close>

type_synonym outcome = "exn option \<times> node"

text \<open>\<open>os.makedirs(name, exist_ok=True)\<close>.\<close>

definition makedirs :: "env \<Rightarrow> string \<Rightarrow> node \<Rightarrow> outcome" where
  "makedirs env name t =
     (case fault env (Call_makedirs name) of
        Some e \<Rightarrow> (Some e, t)
      | None \<Rightarrow>
          (if name = [] then (Some (Exn OSError ''FileNotFoundError''), t)
           else (case mkdirs (loc env name) t of
                   None \<Rightarrow> (Some (Exn OSError ''FileExistsError''), t)
                 | Some t' \<Rightarrow> (None, t'))))"

text \<open>\<open>os.remove\<close> and \<open>os.rmdir\<close>.\<close>

definition remove :: "env \<Rightarrow> string \<Rightarrow> node \<Rightarrow> outcome" where
  "remove env p t =
     (case fault env (Call_remove p) of
        Some e \<Rightarrow> (Some e, t)
      | None \<Rightarrow>
          (case stat env p t of
             Some (File c) \<Rightarrow>
               (case delete (loc env p) t of
                  None \<Rightarrow> (Some (Exn OSError ''PermissionError''), t)
                | Some t' \<Rightarrow> (None, t'))
           | Some (Dir cs) \<Rightarrow> (Some (Exn OSError ''IsADirectoryError''), t)
           | None \<Rightarrow> (Some (Exn OSError ''FileNotFoundError''), t)))"

definition rmdir :: "env \<Rightarrow> string \<Rightarrow> node \<Rightarrow> outcome" where
  "rmdir env p t =
     (case fault env (Call_rmdir p) of
        Some e \<Rightarrow> (Some e, t)
      | None \<Rightarrow>
          (case stat env p t of
             Some (Dir cs) \<Rightarrow>
               (if cs \<noteq> [] then (Some (Exn OSError ''Directory not empty''), t)
                else (case delete (loc env p) t of
                        None \<Rightarrow> (Some (Exn OSError ''PermissionError''), t)
                      | Some t' \<Rightarrow> (None, t')))
           | Some (File c) \<Rightarrow> (Some (Exn OSError ''NotADirectoryError''), t)
           | None \<Rightarrow> (Some (Exn OSError ''FileNotFoundError''), t)))"

text \<open>
  \<open>os.walk(top, topdown)\<close>: one triple \<open>(root, dirs, files)\<close> for each directory
  under \<open>top\<close>, the root strings built with \<open>join\<close>; errors of the listing are
  ignored, as \<open>os.walk\<close> does without \<open>onerror\<close>. The order of the entries of a
  directory is the order of the tree. The loops of the source never change the
  entries of a directory that the walk has yet to list, so the triples are those of
  the filesystem at the start of the walk.
\<close>

fun is_Dir :: "node \<Rightarrow> bool" where
  "is_Dir (Dir cs) = True"
| "is_Dir (File c) = False"

fun walk_tree :: "platform \<Rightarrow> bool \<Rightarrow> string \<Rightarrow> node \<Rightarrow> (string \<times> string list \<times> string list) list" where
  "walk_tree pf topdown top_dir (File c) = []"
| "walk_tree pf topdown top_dir (Dir cs) =
     (let dirs = map fst (filter (\<lambda>kx. is_Dir (snd kx)) cs);
          nondirs = map fst (filter (\<lambda>kx. \<not> is_Dir (snd kx)) cs);
          subs = concat (map (\<lambda>kx. walk_tree pf topdown (join pf top_dir [fst kx]) (snd kx)) cs)
      in if topdown then (top_dir, dirs, nondirs) # subs
         else subs @ [(top_dir, dirs, nondirs)])"

definition walk :: "env \<Rightarrow> string \<Rightarrow> bool \<Rightarrow> node \<Rightarrow> (string \<times> string list \<times> string list) list" where
  "walk env top_dir topdown t =
     (case stat env top_dir t of
        Some (Dir cs) \<Rightarrow> walk_tree (host env) topdown top_dir (Dir cs)
      | _ \<Rightarrow> [])"

subsection \<open>\<open>zipfile.ZipFile\<close>\<close>

text \<open>\<open>ZipFile(name, 'r')\<close>: the members of the archive.\<close>

definition ZipFile_read :: "env \<Rightarrow> string \<Rightarrow> node \<Rightarrow> exn + (string \<times> content) list" where
  "ZipFile_read env name t =
     (case fault env (Call_zip_read name) of
        Some e \<Rightarrow> Inl e
      | None \<Rightarrow>
          (case stat env name t of
             None \<Rightarrow> Inl (Exn OSError ''FileNotFoundError'')
           | Some (Dir cs) \<Rightarrow> Inl (Exn OSError ''IsADirectoryError'')
           | Some (File (Raw b)) \<Rightarrow> Inl (Exn BadZipFile ''File is not a zip file'')
           | Some (File (Zip ms)) \<Rightarrow> Inr ms))"

definition rstrip :: "char \<Rightarrow> string \<Rightarrow> string" where
  "rstrip c s = rev (dropWhile (\<lambda>x. x = c) (rev s))"

text \<open>\<open>ZipFile._sanitize_windows_name\<close>.\<close>

definition sanitize_windows_name :: "string \<Rightarrow> string" where
  "sanitize_windows_name arcname =
     join_sep bslash
       (filter (\<lambda>x. x \<noteq> [])
          (map (rstrip (CHR ''.''))
             (split_sep bslash
                (map (\<lambda>x. if x \<in> set ('':<>|'' @ [CHR 0x22] @ ''?*'') then CHR ''_'' else x) arcname))))"

text \<open>
  The path \<open>ZipFile._extract_member\<close> extracts a member to: the member's name made
  relative and harmless, under the target directory.
\<close>

definition member_target :: "platform \<Rightarrow> string \<Rightarrow> string \<Rightarrow> string" where
  "member_target pf targetpath filename =
     (let arcname1 = replace_char (CHR ''/'') (os_sep pf) filename;
          arcname2 = (case pf of
                        Posix \<Rightarrow> arcname1
                      | Windows \<Rightarrow> snd (nt_splitdrive arcname1));
          arcname3 = join_sep (os_sep pf)
                       (filter (\<lambda>x. x \<noteq> [] \<and> x \<noteq> ''.'' \<and> x \<noteq> ''..'')
                          (split_sep (os_sep pf) arcname2));
          arcname = (case pf of
                       Posix \<Rightarrow> arcname3
                     | Windows \<Rightarrow> sanitize_windows_name arcname3)
      in normpath pf (join pf targetpath [arcname]))"

definition extract_member :: "env \<Rightarrow> string \<Rightarrow> string \<times> content \<Rightarrow> node \<Rightarrow> outcome" where
  "extract_member env path m t =
     (case fault env (Call_extract (fst m) path) of
        Some e \<Rightarrow> (Some e, t)
      | None \<Rightarrow>
          (let l = loc env (member_target (host env) path (fst m))
           in case mkdirs (butlast l) t of
                None \<Rightarrow> (Some (Exn OSError ''FileExistsError''), t)
              | Some t1 \<Rightarrow>
                  (if endswith ''/'' (fst m) then
                     (case mkdirs l t1 of
                        None \<Rightarrow> (Some (Exn OSError ''FileExistsError''), t1)
                      | Some t2 \<Rightarrow> (None, t2))
                   else
                     (case lookup t1 l of
                        Some (Dir cs) \<Rightarrow> (Some (Exn OSError ''IsADirectoryError''), t1)
                      | _ \<Rightarrow>
                          (case put l (File (snd m)) t1 of
                             None \<Rightarrow> (Some (Exn OSError ''FileNotFoundError''), t1)
                           | Some t2 \<Rightarrow> (None, t2))))))"

text \<open>\<open>zip_ref.extractall(path)\<close>: member after member, up to the first exception.\<close>

fun extractall :: "env \<Rightarrow> (string \<times> content) list \<Rightarrow> string \<Rightarrow> node \<Rightarrow> outcome" where
  "extractall env [] path t = (None, t)"
| "extractall env (m # ms) path t =
     (case extract_member env path m t of
        (Some e, t') \<Rightarrow> (Some e, t')
      | (None, t') \<Rightarrow> extractall env ms path t')"

text \<open>\<open>ZipFile(name, 'w')\<close>: the file is created, or truncated, as an empty archive.\<close>

definition ZipFile_write :: "env \<Rightarrow> string \<Rightarrow> node \<Rightarrow> outcome" where
  "ZipFile_write env name t =
     (case fault env (Call_zip_create name) of
        Some e \<Rightarrow> (Some e, t)
      | None \<Rightarrow>
          (if name = [] \<or> last name \<in> seps (host env)
           then (Some (Exn OSError ''FileNotFoundError''), t)
           else (case lookup t (loc env name) of
                   Some (Dir cs) \<Rightarrow> (Some (Exn OSError ''IsADirectoryError''), t)
                 | _ \<Rightarrow>
                     (case put (loc env name) (File (Zip [])) t of
                        None \<Rightarrow> (Some (Exn OSError ''FileNotFoundError''), t)
                      | Some t' \<Rightarrow> (None, t')))))"

text \<open>
  The member name \<open>ZipInfo.from_file\<close> gives an \<open>arcname\<close>: normalised, without drive
  and leading separators, with \<open>/\<close> for the separator. An \<open>arcname\<close> that is nothing
  but separators raises \<open>IndexError\<close>.
\<close>

definition zip_arcname :: "platform \<Rightarrow> string \<Rightarrow> exn + string" where
  "zip_arcname pf arcname =
     (let a1 = normpath pf (case pf of
                              Posix \<Rightarrow> arcname
                            | Windows \<Rightarrow> snd (nt_splitdrive arcname));
          a2 = dropWhile (\<lambda>x. x \<in> seps pf) a1
      in if a2 = [] then Inl (Exn OtherException ''string index out of range'')
         else Inr (case pf of
                     Posix \<Rightarrow> a2
                   | Windows \<Rightarrow> replace_char bslash (CHR ''/'') a2))"

text \<open>
  \<open>new_zip.write(filename, arcname=arcname)\<close> on the archive opened at \<open>zip_name\<close>:
  the file is read and appended as a member.
\<close>

definition ZipFile_add :: "env \<Rightarrow> string \<Rightarrow> string \<Rightarrow> string \<Rightarrow> node \<Rightarrow> outcome" where
  "ZipFile_add env zip_name filename arcname t =
     (case fault env (Call_zip_write filename arcname) of
        Some e \<Rightarrow> (Some e, t)
      | None \<Rightarrow>
          (case stat env filename t of
             None \<Rightarrow> (Some (Exn OSError ''FileNotFoundError''), t)
           | Some src \<Rightarrow>
               (case zip_arcname (host env) arcname of
                  Inl e \<Rightarrow> (Some e, t)
                | Inr nm \<Rightarrow>
                    (case lookup t (loc env zip_name) of
                       Some (File (Zip ms)) \<Rightarrow>
                         (let m = (case src of
                                     File c \<Rightarrow> (nm, c)
                                   | Dir cs \<Rightarrow> (nm @ ''/'', Raw []))
                          in case put (loc env zip_name) (File (Zip (ms @ [m]))) t of
                               None \<Rightarrow> (Some (Exn OSError ''closed file''), t)
                             | Some t' \<Rightarrow> (None, t'))
                     | _ \<Rightarrow> (Some (Exn OSError ''closed file''), t)))))"

section \<open>The converter of \<open>src/main.py\<close>\<close>

subsection \<open>\<open>custom_relpath\<close> (lines 17 to 47)\<close>

text \<open>The body of the loop of lines 41 to 46, on the list \<open>rel\<close>.\<close>

definition rel_step :: "string list \<Rightarrow> string \<Rightarrow> string list" where
  "rel_step rel part =
     (if part = ''..'' then (if rel \<noteq> [] then butlast rel else rel)
      else if part \<noteq> ''.'' then rel @ [part]
      else rel)"

definition custom_relpath :: "env \<Rightarrow> string \<Rightarrow> string \<Rightarrow> string" where
  "custom_relpath env path0 start0 =
     (let path = abspath (host env) (cwd env) (normpath (host env) path0);
          start = abspath (host env) (cwd env) (normpath (host env) start0)
      in if \<not> contains start path then path
         else
           let common = commonprefix path start;
               rel_path = lstrip (os_sep (host env)) (drop (length common) path);
               parts = split_sep (os_sep (host env)) rel_path;
               rel = foldl rel_step [] parts
           in join_sep (os_sep (host env)) rel)"

subsection \<open>\<open>_update_progress\<close> (lines 125 to 131)\<close>

text \<open>
  The state a conversion runs in: the filesystem, the invocations of the progress
  callback so far (also those that raised), and the lines printed.
\<close>

record world =
  fs :: node
  events :: "event list"
  printed :: "message list"

definition update_progress ::
    "callback option \<Rightarrow> int \<Rightarrow> message \<Rightarrow> world \<Rightarrow> (exn + unit) \<times> world" where
  "update_progress callback v message w =
     (case callback of
        None \<Rightarrow> (Inr (), w)
      | Some f \<Rightarrow>
          (let w' = w\<lparr>events := events w @ [(v, message)]\<rparr>
           in case f (events w) v message of
                None \<Rightarrow> (Inr (), w')
              | Some e \<Rightarrow>
                  (if class_of e = RuntimeError then (Inr (), w') else (Inl e, w'))))"

subsection \<open>\<open>_cleanup_temp_dir\<close> (lines 134 to 144)\<close>

text \<open>Lines 138 and 139, lines 140 and 141, and the loop of line 137 around them.\<close>

fun remove_files :: "env \<Rightarrow> string \<Rightarrow> string list \<Rightarrow> node \<Rightarrow> outcome" where
  "remove_files env root [] t = (None, t)"
| "remove_files env root (name # files) t =
     (case remove env (join (host env) root [name]) t of
        (Some e, t') \<Rightarrow> (Some e, t')
      | (None, t') \<Rightarrow> remove_files env root files t')"

fun remove_dirs :: "env \<Rightarrow> string \<Rightarrow> string list \<Rightarrow> node \<Rightarrow> outcome" where
  "remove_dirs env root [] t = (None, t)"
| "remove_dirs env root (name # dirs) t =
     (case rmdir env (join (host env) root [name]) t of
        (Some e, t') \<Rightarrow> (Some e, t')
      | (None, t') \<Rightarrow> remove_dirs env root dirs t')"

fun cleanup_loop :: "env \<Rightarrow> (string \<times> string list \<times> string list) list \<Rightarrow> node \<Rightarrow> outcome" where
  "cleanup_loop env [] t = (None, t)"
| "cleanup_loop env ((root, dirs, files) # rest) t =
     (case remove_files env root files t of
        (Some e, t') \<Rightarrow> (Some e, t')
      | (None, t') \<Rightarrow>
          (case remove_dirs env root dirs t' of
             (Some e, t'') \<Rightarrow> (Some e, t'')
           | (None, t'') \<Rightarrow> cleanup_loop env rest t''))"

text \<open>Lines 137 to 142: the walk from the bottom, then the directory itself.\<close>

definition cleanup_walk :: "env \<Rightarrow> string \<Rightarrow> node \<Rightarrow> outcome" where
  "cleanup_walk env temp_dir t =
     (case cleanup_loop env (walk env temp_dir False t) t of
        (Some e, t') \<Rightarrow> (Some e, t')
      | (None, t') \<Rightarrow> rmdir env temp_dir t')"

definition cleanup_temp_dir :: "env \<Rightarrow> string \<Rightarrow> world \<Rightarrow> (exn + unit) \<times> world" where
  "cleanup_temp_dir env temp_dir w =
     (case cleanup_walk env temp_dir (fs w) of
        (None, t') \<Rightarrow> (Inr (), w\<lparr>fs := t'\<rparr>)
      | (Some e, t') \<Rightarrow>
          (if is_Exception e
           then (Inr (), w\<lparr>fs := t', printed := printed w @ [Msg_cleanup_failed (str e)]\<rparr>)
           else (Inl e, w\<lparr>fs := t'\<rparr>)))"

subsection \<open>\<open>convert_exe_to_sb3\<close> (lines 50 to 122)\<close>

text \<open>
  Lines 80 to 85: the characters of \<open>temp_dir\<close> are visited by index and every
  \<open>/\<close> is overwritten with a backslash. Lines 86 to 91 build the string again from
  the list.
\<close>

definition replace_slashes :: "string \<Rightarrow> string" where
  "replace_slashes temp_dir =
     fold (\<lambda>sum t. if t ! sum = CHR ''/'' then t[sum := bslash] else t)
       [0..<length temp_dir] temp_dir"

definition rebuild :: "string \<Rightarrow> string" where
  "rebuild temp = fold (\<lambda>sum temp_dir. temp_dir @ [temp ! sum]) [0..<length temp] []"

text \<open>A statement that may raise, followed by the rest of the block.\<close>

definition and_then ::
    "(exn + unit) \<times> world \<Rightarrow> (world \<Rightarrow> (exn + bool) \<times> world) \<Rightarrow> (exn + bool) \<times> world" where
  "and_then r k = (case r of (Inl e, w) \<Rightarrow> (Inl e, w) | (Inr u, w) \<Rightarrow> k w)"

text \<open>Lines 104 to 108: the files of one directory of the walk are written.\<close>

fun write_files :: "env \<Rightarrow> string \<Rightarrow> string \<Rightarrow> string \<Rightarrow> string list \<Rightarrow> node \<Rightarrow> outcome" where
  "write_files env new_zip app_dir root [] t = (None, t)"
| "write_files env new_zip app_dir root (file # files) t =
     (case ZipFile_add env new_zip
             (join (host env) root [file])
             (join (host env) (custom_relpath env root app_dir) [file]) t of
        (Some e, t') \<Rightarrow> (Some e, t')
      | (None, t') \<Rightarrow> write_files env new_zip app_dir root files t')"

text \<open>Line 103: the loop over the walk.\<close>

fun write_walk ::
    "env \<Rightarrow> string \<Rightarrow> string \<Rightarrow> (string \<times> string list \<times> string list) list \<Rightarrow> node \<Rightarrow> outcome" where
  "write_walk env new_zip app_dir [] t = (None, t)"
| "write_walk env new_zip app_dir ((root, dirs, files) # rest) t =
     (case write_files env new_zip app_dir root files t of
        (Some e, t') \<Rightarrow> (Some e, t')
      | (None, t') \<Rightarrow> write_walk env new_zip app_dir rest t')"

text \<open>Lines 102 to 108: the archive is opened and every file of the walk is written.\<close>

definition pack :: "env \<Rightarrow> string \<Rightarrow> string \<Rightarrow> node \<Rightarrow> outcome" where
  "pack env target_zip_name app_dir t =
     (case ZipFile_write env target_zip_name t of
        (Some e, t') \<Rightarrow> (Some e, t')
      | (None, t') \<Rightarrow>
          write_walk env target_zip_name app_dir (walk env app_dir True t') t')"

text \<open>
  The body of the outer \<open>try\<close> (lines 61 to 118) runs the four stages that the
  comments of the source mark; each is a definition here, and each hands over to the
  next. Stage 4, lines 113 to 118: cleaning, and the return of \<open>True\<close>.
\<close>

definition stage_cleanup ::
    "env \<Rightarrow> callback option \<Rightarrow> string \<Rightarrow> world \<Rightarrow> (exn + bool) \<times> world" where
  "stage_cleanup env progress_callback temp_dir w =
     and_then (update_progress progress_callback 80 Msg_cleaning w) (\<lambda>w1.
     and_then (cleanup_temp_dir env temp_dir w1) (\<lambda>w2.
     and_then (update_progress progress_callback 100 Msg_done w2) (\<lambda>w3.
     (Inr True, w3))))"

text \<open>Stage 3, lines 98 to 111: the archive is written; \<open>except Exception\<close> at line 109.\<close>

definition stage_pack ::
    "env \<Rightarrow> callback option \<Rightarrow> string \<Rightarrow> string \<Rightarrow> string \<Rightarrow> world \<Rightarrow> (exn + bool) \<times> world" where
  "stage_pack env progress_callback target_zip_name temp_dir app_dir w =
     and_then (update_progress progress_callback 50 Msg_packing w) (\<lambda>w1.
     case pack env target_zip_name app_dir (fs w1) of
       (Some e, t) \<Rightarrow>
         (if is_Exception e then
            and_then
              (update_progress progress_callback 0 (Msg_write_error (str e)) (w1\<lparr>fs := t\<rparr>))
              (\<lambda>w2. (Inr False, w2))
          else (Inl e, w1\<lparr>fs := t\<rparr>))
     | (None, t) \<Rightarrow> stage_cleanup env progress_callback temp_dir (w1\<lparr>fs := t\<rparr>))"

text \<open>
  Stage 2, lines 79 to 96: the separators of \<open>temp_dir\<close> are rewritten, the resource
  directory is named and looked for.
\<close>

definition app_dir_of :: "env \<Rightarrow> string \<Rightarrow> string" where
  "app_dir_of env temp_dir =
     join (host env) temp_dir [''packaged-project'', ''resources'', ''app''] @ [bslash]"

definition stage_validate ::
    "env \<Rightarrow> callback option \<Rightarrow> string \<Rightarrow> string \<Rightarrow> world \<Rightarrow> (exn + bool) \<times> world" where
  "stage_validate env progress_callback target_zip_name temp_dir0 w =
     (let temp_dir = rebuild (replace_slashes temp_dir0);
          app_dir = app_dir_of env temp_dir
      in if \<not> exists env app_dir (fs w) then
           and_then (update_progress progress_callback 0 (Msg_missing_dir app_dir) w)
             (\<lambda>w1. (Inr False, w1))
         else stage_pack env progress_callback target_zip_name temp_dir app_dir w)"

text \<open>
  Stage 1, lines 69 to 77: the archive is opened and extracted; \<open>except BadZipFile\<close>
  at line 75 catches that class only.
\<close>

definition unzip :: "env \<Rightarrow> string \<Rightarrow> string \<Rightarrow> node \<Rightarrow> outcome" where
  "unzip env zip_file_name temp_dir t =
     (case ZipFile_read env zip_file_name t of
        Inl e \<Rightarrow> (Some e, t)
      | Inr zip_ref \<Rightarrow> extractall env zip_ref temp_dir t)"

definition stage_extract ::
    "env \<Rightarrow> callback option \<Rightarrow> string \<Rightarrow> string \<Rightarrow> string \<Rightarrow> world \<Rightarrow> (exn + bool) \<times> world" where
  "stage_extract env progress_callback zip_file_name target_zip_name temp_dir w =
     and_then (update_progress progress_callback 10 Msg_extracting w) (\<lambda>w1.
     case unzip env zip_file_name temp_dir (fs w1) of
       (Some e, t) \<Rightarrow>
         (if class_of e = BadZipFile then
            and_then (update_progress progress_callback 0 Msg_invalid_zip (w1\<lparr>fs := t\<rparr>))
              (\<lambda>w2. (Inr False, w2))
          else (Inl e, w1\<lparr>fs := t\<rparr>))
     | (None, t) \<Rightarrow>
         stage_validate env progress_callback target_zip_name temp_dir (w1\<lparr>fs := t\<rparr>))"

text \<open>Lines 61 to 67: the paths, and the temporary directory.\<close>

definition target_of :: "env \<Rightarrow> string \<Rightarrow> string \<Rightarrow> string" where
  "target_of env zip_file_name output_dir =
     (let file_name = basename (host env) zip_file_name
      in join (host env) output_dir [fst (splitext (host env) file_name) @ ''.sb3''])"

definition temp_of :: "env \<Rightarrow> string \<Rightarrow> string" where
  "temp_of env output_dir = join (host env) output_dir [''temp_extract'']"

definition convert_body ::
    "env \<Rightarrow> callback option \<Rightarrow> string \<Rightarrow> string \<Rightarrow> world \<Rightarrow> (exn + bool) \<times> world" where
  "convert_body env progress_callback zip_file_name output_dir w =
     (let target_zip_name = target_of env zip_file_name output_dir;
          temp_dir = temp_of env output_dir
      in case makedirs env temp_dir (fs w) of
           (Some e, t) \<Rightarrow> (Inl e, w\<lparr>fs := t\<rparr>)
         | (None, t) \<Rightarrow>
             stage_extract env progress_callback zip_file_name target_zip_name temp_dir
               (w\<lparr>fs := t\<rparr>))"

text \<open>
  The whole function: an \<open>Exception\<close> that leaves the body is reported through the
  callback (line 121) and turned into \<open>False\<close>. The result is \<open>Inr\<close> of the returned
  boolean, or \<open>Inl\<close> of the exception that leaves the function.
\<close>

definition convert_exe_to_sb3 ::
    "env \<Rightarrow> callback option \<Rightarrow> string \<Rightarrow> string \<Rightarrow> world \<Rightarrow> (exn + bool) \<times> world" where
  "convert_exe_to_sb3 env progress_callback zip_file_name output_dir w =
     (case convert_body env progress_callback zip_file_name output_dir w of
        (Inl e, w') \<Rightarrow>
          (if is_Exception e then
             and_then (update_progress progress_callback 0 (Msg_unexpected (str e)) w')
               (\<lambda>w''. (Inr False, w''))
           else (Inl e, w'))
      | (Inr b, w') \<Rightarrow> (Inr b, w'))"

text \<open>A call starts with no progress event and nothing printed.\<close>

definition start :: "node \<Rightarrow> world" where
  "start t = \<lparr>fs = t, events = [], printed = []\<rparr>"

subsection \<open>Well-behaved callbacks and hosts\<close>

text \<open>A callback that, whenever it raises, raises \<open>RuntimeError\<close>.\<close>

definition raises_only_RuntimeError :: "callback \<Rightarrow> bool" where
  "raises_only_RuntimeError f = (\<forall>h v m e. f h v m = Some e \<longrightarrow> class_of e = RuntimeError)"



text \<open>
  Two runs have the same outcome when they return or raise the same and leave the same
  filesystem and the same printed lines.
\<close>

definition same_outcome :: "(exn + bool) \<times> world \<Rightarrow> (exn + bool) \<times> world \<Rightarrow> bool" where
  "same_outcome x y =
     (fst x = fst y \<and> fs (snd x) = fs (snd y) \<and> printed (snd x) = printed (snd y))"

subsection \<open>Path segments\<close>

text \<open>
  The segments of a path, and what it is for \<open>start\<close> to be an ancestor of \<open>path\<close>
  segment by segment (rather than a leading string of it).
\<close>

definition segments :: "platform \<Rightarrow> string \<Rightarrow> string list" where
  "segments pf p = filter (\<lambda>s. s \<noteq> []) (split_sep (os_sep pf) p)"

definition segment_ancestor :: "platform \<Rightarrow> string \<Rightarrow> string \<Rightarrow> bool" where
  "segment_ancestor pf start_path path =
     (take (length (segments pf start_path)) (segments pf path) = segments pf start_path)"


section \<open>Example hosts, archives and callbacks\<close>

text \<open>
  A packaged project with the expected layout, an archive without it, and a file that
  is not an archive; a Windows host and a POSIX host holding them.
\<close>

definition game :: content where
  "game = Zip [(''packaged-project/resources/app/project.json'', Raw ''{}''),
               (''packaged-project/resources/app/assets/a.png'', Raw ''png''),
               (''packaged-project/readme.txt'', Raw ''hi'')]"

definition no_layout :: content where
  "no_layout = Zip [(''readme.txt'', Raw ''hi'')]"

definition windows_host :: env where
  "windows_host = \<lparr>host = Windows, cwd = ''C:'' @ [bslash] @ ''work'', fault = (\<lambda>c. None)\<rparr>"

definition windows_fs :: node where
  "windows_fs =
     Dir [(''C:'',
           Dir [(''in'', Dir [(''game.zip'', File game),
                              (''other.zip'', File no_layout),
                              (''bad.zip'', File (Raw ''text''))]),
                (''out'', Dir []),
                (''work'', Dir [])])]"

definition posix_host :: env where
  "posix_host = \<lparr>host = Posix, cwd = ''/home/u'', fault = (\<lambda>c. None)\<rparr>"

definition posix_fs :: node where
  "posix_fs =
     Dir [(''home'',
           Dir [(''u'', Dir [(''game.zip'', File game),
                             (''other.zip'', File no_layout),
                             (''bad.zip'', File (Raw ''text'')),
                             (''out'', Dir [])])])]"

text \<open>
  A callback that returns, one whose window has been closed (Qt raises
  \<open>RuntimeError\<close>), and one that raises another exception at every call.
\<close>

definition quiet :: callback where
  "quiet = (\<lambda>h v m. None)"

definition closed_ui :: callback where
  "closed_ui = (\<lambda>h v m. Some (Exn RuntimeError ''Internal C++ object already deleted''))"



section \<open>Properties of the operations\<close>

subsection \<open>The progress callback\<close>

lemma update_progress_None: "update_progress None v m w = (Inr (), w)"
  by (simp add: update_progress_def)

lemma update_progress_benign:
  "raises_only_RuntimeError f \<Longrightarrow>
     update_progress (Some f) v m w = (Inr (), w\<lparr>events := events w @ [(v, m)]\<rparr>)"
  by (auto simp: update_progress_def Let_def raises_only_RuntimeError_def split: option.splits)




subsection \<open>What the operations raise\<close>


















lemma cleanup_temp_dir_same:
  assumes "fs w0 = fs w" and "printed w0 = printed w"
  shows "fst (cleanup_temp_dir env d w0) = fst (cleanup_temp_dir env d w) \<and>
         fs (snd (cleanup_temp_dir env d w0)) = fs (snd (cleanup_temp_dir env d w)) \<and>
         printed (snd (cleanup_temp_dir env d w0)) = printed (snd (cleanup_temp_dir env d w))"
  using assms by (simp add: cleanup_temp_dir_def split: prod.splits option.splits)

subsection \<open>Creating directories leaves the regular files alone\<close>






section \<open>The stages, one by one\<close>

subsection \<open>A callback that raises \<open>RuntimeError\<close> makes no difference\<close>

lemma failure_same:
  assumes "raises_only_RuntimeError f" and "fs w0 = fs w" and "printed w0 = printed w"
  shows "same_outcome (and_then (update_progress None 0 m w0) (\<lambda>w1. (Inr False, w1)))
                      (and_then (update_progress (Some f) 0 m w) (\<lambda>w1. (Inr False, w1)))"
  using assms(2,3)
  by (simp add: same_outcome_def and_then_def update_progress_None
        update_progress_benign [OF assms(1)])

lemma stage_cleanup_silent:
  assumes f: "raises_only_RuntimeError f" and "fs w0 = fs w" and "printed w0 = printed w"
  shows "same_outcome (stage_cleanup env None d w0) (stage_cleanup env (Some f) d w)"
proof -
  let ?w1 = "w\<lparr>events := events w @ [(80, Msg_cleaning)]\<rparr>"
  from assms(2,3) have "fs w0 = fs ?w1" "printed w0 = printed ?w1" by simp_all
  from cleanup_temp_dir_same [OF this, of env d] show ?thesis
    by (auto simp: same_outcome_def stage_cleanup_def and_then_def update_progress_None
          update_progress_benign [OF f] split: prod.splits sum.splits)
qed

lemma stage_pack_silent:
  assumes f: "raises_only_RuntimeError f" and "fs w0 = fs w" and "printed w0 = printed w"
  shows "same_outcome (stage_pack env None tz d a w0) (stage_pack env (Some f) tz d a w)"
proof (cases "pack env tz a (fs w)")
  case (Pair eo t)
  let ?w1 = "w\<lparr>events := events w @ [(50, Msg_packing)]\<rparr>"
  show ?thesis
  proof (cases eo)
    case None
    have "same_outcome (stage_cleanup env None d (w0\<lparr>fs := t\<rparr>))
                       (stage_cleanup env (Some f) d (?w1\<lparr>fs := t\<rparr>))"
      using assms(3) by (intro stage_cleanup_silent [OF f]) simp_all
    with Pair None assms(2) show ?thesis
      by (simp add: stage_pack_def and_then_def update_progress_None
            update_progress_benign [OF f])
  next
    case (Some e)
    have "same_outcome
            (and_then (update_progress None 0 (Msg_write_error (str e)) (w0\<lparr>fs := t\<rparr>))
               (\<lambda>w1. (Inr False, w1)))
            (and_then (update_progress (Some f) 0 (Msg_write_error (str e)) (?w1\<lparr>fs := t\<rparr>))
               (\<lambda>w1. (Inr False, w1)))"
      using assms(3) by (intro failure_same [OF f]) simp_all
    with Pair Some assms(2,3) show ?thesis
      by (simp add: stage_pack_def and_then_def update_progress_None
            update_progress_benign [OF f] same_outcome_def)
  qed
qed

lemma stage_validate_silent:
  assumes f: "raises_only_RuntimeError f" and "fs w0 = fs w" and "printed w0 = printed w"
  shows "same_outcome (stage_validate env None tz d w0) (stage_validate env (Some f) tz d w)"
  using stage_pack_silent [OF assms] failure_same [OF assms] assms(2)
  by (simp add: stage_validate_def Let_def)

lemma stage_extract_silent:
  assumes f: "raises_only_RuntimeError f" and "fs w0 = fs w" and "printed w0 = printed w"
  shows "same_outcome (stage_extract env None z tz d w0) (stage_extract env (Some f) z tz d w)"
proof (cases "unzip env z d (fs w)")
  case (Pair eo t)
  let ?w1 = "w\<lparr>events := events w @ [(10, Msg_extracting)]\<rparr>"
  show ?thesis
  proof (cases eo)
    case None
    have "same_outcome (stage_validate env None tz d (w0\<lparr>fs := t\<rparr>))
                       (stage_validate env (Some f) tz d (?w1\<lparr>fs := t\<rparr>))"
      using assms(3) by (intro stage_validate_silent [OF f]) simp_all
    with Pair None assms(2) show ?thesis
      by (simp add: stage_extract_def and_then_def update_progress_None
            update_progress_benign [OF f])
  next
    case (Some e)
    have "same_outcome
            (and_then (update_progress None 0 Msg_invalid_zip (w0\<lparr>fs := t\<rparr>))
               (\<lambda>w1. (Inr False, w1)))
            (and_then (update_progress (Some f) 0 Msg_invalid_zip (?w1\<lparr>fs := t\<rparr>))
               (\<lambda>w1. (Inr False, w1)))"
      using assms(3) by (intro failure_same [OF f]) simp_all
    with Pair Some assms(2,3) show ?thesis
      by (simp add: stage_extract_def and_then_def update_progress_None
            update_progress_benign [OF f] same_outcome_def)
  qed
qed

lemma convert_body_silent:
  assumes f: "raises_only_RuntimeError f"
  shows "same_outcome (convert_body env None z out w) (convert_body env (Some f) z out w)"
proof (cases "makedirs env (temp_of env out) (fs w)")
  case (Pair eo t)
  show ?thesis
  proof (cases eo)
    case None
    have "same_outcome
            (stage_extract env None z (target_of env z out) (temp_of env out) (w\<lparr>fs := t\<rparr>))
            (stage_extract env (Some f) z (target_of env z out) (temp_of env out)
               (w\<lparr>fs := t\<rparr>))"
      by (intro stage_extract_silent [OF f]) simp_all
    with Pair None show ?thesis by (simp add: convert_body_def Let_def)
  next
    case (Some e)
    with Pair show ?thesis by (simp add: convert_body_def Let_def same_outcome_def)
  qed
qed

lemma convert_silent:
  assumes f: "raises_only_RuntimeError f"
  shows "same_outcome (convert_exe_to_sb3 env None z out w)
                      (convert_exe_to_sb3 env (Some f) z out w)"
proof -
  obtain r0 w0 where b0: "convert_body env None z out w = (r0, w0)"
    by (cases "convert_body env None z out w")
  obtain r1 w1 where b1: "convert_body env (Some f) z out w = (r1, w1)"
    by (cases "convert_body env (Some f) z out w")
  from convert_body_silent [OF f, of env z out w] b0 b1
  have eq: "r0 = r1" "fs w0 = fs w1" "printed w0 = printed w1"
    by (simp_all add: same_outcome_def)
  show ?thesis
  proof (cases r1)
    case (Inr b)
    with b0 b1 eq show ?thesis by (simp add: convert_exe_to_sb3_def same_outcome_def)
  next
    case (Inl e)
    from failure_same [OF f eq(2,3), of "Msg_unexpected (str e)"] Inl b0 b1 eq
    show ?thesis by (simp add: convert_exe_to_sb3_def same_outcome_def)
  qed
qed

subsection \<open>The progress events of each stage\<close>





subsection \<open>What leaves each stage\<close>






section \<open>The claims\<close>

text \<open>
  Claim C9. For every conversion, if the progress callback raises an error because the
  calling context has been torn down (the invoking UI has closed, which Qt reports as
  \<open>RuntimeError\<close>), the invocation is swallowed: \<open>_update_progress\<close> returns normally,
  and the conversion returns or raises the same, and leaves the same filesystem, as the
  conversion run without any callback.
\<close>

theorem runtime_error_swallowed:
  assumes "raises_only_RuntimeError f"
  shows "fst (update_progress (Some f) v m w) = Inr () \<and>
         same_outcome (convert_exe_to_sb3 env (Some f) z out w)
                      (convert_exe_to_sb3 env None z out w)"
  using convert_silent [OF assms, of env z out w]
  by (simp add: update_progress_benign [OF assms] same_outcome_def)

theorem runtime_error_swallowed_witness:
  "raises_only_RuntimeError closed_ui \<and>
   fst (update_progress (Some closed_ui) 10 Msg_extracting (start windows_fs)) = Inr () \<and>
   fst (convert_exe_to_sb3 windows_host None ''C:/in/game.zip'' ''C:/out''
          (start windows_fs)) = Inr True \<and>
   same_outcome
     (convert_exe_to_sb3 windows_host (Some closed_ui) ''C:/in/game.zip'' ''C:/out''
        (start windows_fs))
     (convert_exe_to_sb3 windows_host None ''C:/in/game.zip'' ''C:/out'' (start windows_fs))"
proof -
  have h1: "raises_only_RuntimeError closed_ui"
    by (simp add: raises_only_RuntimeError_def closed_ui_def)
  have h2: "fst (convert_exe_to_sb3 windows_host None ''C:/in/game.zip'' ''C:/out''
          (start windows_fs)) = Inr True"
    by code_simp
  from runtime_error_swallowed [OF h1] h1 h2
  show ?thesis by blast
qed











text \<open>
  Claim C1: whether convert returns success or failure, the temporary directory
  \<open>temp_extract\<close> under the output directory no longer exists when the call returns.
  The code at a failing input: the conversion of a file that is not an archive returns
  \<open>False\<close> through line 77, which \<open>_cleanup_temp_dir\<close> does not precede; the directory
  that line 67 created, and that was not there before, is there after the call.
\<close>

theorem workspace_left_after_failure:
  "fst (convert_exe_to_sb3 windows_host (Some quiet) ''C:/in/bad.zip'' ''C:/out''
          (start windows_fs)) = Inr False \<and>
   \<not> exists windows_host (temp_of windows_host ''C:/out'') windows_fs \<and>
   exists windows_host (temp_of windows_host ''C:/out'')
     (fs (snd (convert_exe_to_sb3 windows_host (Some quiet) ''C:/in/bad.zip'' ''C:/out''
                 (start windows_fs))))"
  by code_simp

text \<open>
  The conversion the claims describe, on the Windows host: the archive with the
  expected layout is converted, the output archive holds the files under the resource
  directory under their relative names, and the temporary directory is gone.
\<close>

lemma expected_layout_converts_on_windows:
  "convert_exe_to_sb3 windows_host (Some quiet) ''C:/in/game.zip'' ''C:/out'' (start windows_fs) =
     (Inr True,
      \<lparr>fs = Dir [(''C:'',
                  Dir [(''in'', Dir [(''game.zip'', File game),
                                     (''other.zip'', File no_layout),
                                     (''bad.zip'', File (Raw ''text''))]),
                       (''out'', Dir [(''game.sb3'',
                                       File (Zip [(''project.json'', Raw ''{}''),
                                                  (''assets/a.png'', Raw ''png'')]))]),
                       (''work'', Dir [])])],
       events = [(10, Msg_extracting), (50, Msg_packing), (80, Msg_cleaning), (100, Msg_done)],
       printed = []\<rparr>)"
  by code_simp

text \<open>
  Claim C6: for every well-formed input archive with the expected layout, convert
  returns success and produces the archive of the files under
  \<open>packaged-project/resources/app/\<close>. The code at a failing input, the same archive on
  the POSIX host: the archive is extracted, its \<open>project.json\<close> is in the resource
  directory of the temporary directory, and convert returns \<open>False\<close> and writes no
  output archive, because lines 84 and 93 put backslashes, which are no separators on
  this host, into the path that line 94 looks for.
\<close>

theorem expected_layout_fails_on_posix:
  "stat posix_host ''/home/u/game.zip'' posix_fs = Some (File game) \<and>
   fst (convert_exe_to_sb3 posix_host (Some quiet) ''/home/u/game.zip'' ''/home/u/out''
          (start posix_fs)) = Inr False \<and>
   stat posix_host ''/home/u/out/temp_extract/packaged-project/resources/app/project.json''
     (fs (snd (convert_exe_to_sb3 posix_host (Some quiet) ''/home/u/game.zip'' ''/home/u/out''
                 (start posix_fs)))) = Some (File (Raw ''{}'')) \<and>
   \<not> exists posix_host (target_of posix_host ''/home/u/game.zip'' ''/home/u/out'')
       (fs (snd (convert_exe_to_sb3 posix_host (Some quiet) ''/home/u/game.zip'' ''/home/u/out''
                   (start posix_fs))))"
  by code_simp

text \<open>
  The rewriting of the separators (lines 80 to 91) is idempotent, and the second loop
  gives the string back.
\<close>

lemma fold_index_map:
  assumes f: "\<And>t k. k < length t \<Longrightarrow> f k t = t[k := g (t ! k)]"
  shows "n \<le> length p \<Longrightarrow> fold f [0..<n] p = map g (take n p) @ drop n p"
proof (induction n)
  case 0
  then show ?case by simp
next
  case (Suc n)
  then have n: "n < length p" by simp
  let ?t = "map g (take n p) @ drop n p"
  have len: "length ?t = length p" using n by simp
  have nth: "?t ! n = p ! n" using n by (simp add: nth_append)
  have "fold f [0..<Suc n] p = f n ?t" using Suc by simp
  also have "\<dots> = ?t[n := g (p ! n)]" using f [of n ?t] n len nth by simp
  also have "\<dots> = map g (take n p) @ g (p ! n) # drop (Suc n) p"
    using n by (simp add: list_update_append Cons_nth_drop_Suc [symmetric])
  also have "\<dots> = map g (take (Suc n) p) @ drop (Suc n) p"
    using n by (simp add: take_Suc_conv_app_nth)
  finally show ?case .
qed

lemma replace_slashes_map:
  "replace_slashes p = map (\<lambda>x. if x = CHR ''/'' then bslash else x) p"
  unfolding replace_slashes_def
  using fold_index_map [of "\<lambda>sum t. if t ! sum = CHR ''/'' then t[sum := bslash] else t"
          "\<lambda>x. if x = CHR ''/'' then bslash else x" "length p" p]
  by simp

lemma replace_slashes_idempotent: "replace_slashes (replace_slashes p) = replace_slashes p"
  by (simp add: replace_slashes_map)

lemma rebuild_id: "rebuild p = p"
proof -
  have "fold (\<lambda>sum temp_dir. temp_dir @ [p ! sum]) [0..<n] [] = take n p"
    if "n \<le> length p" for n
    using that by (induction n) (simp_all add: take_Suc_conv_app_nth)
  from this [of "length p"] show ?thesis by (simp add: rebuild_def)
qed

text \<open>
  Claim C7: the normalisation of the separators of the temporary directory's path is
  idempotent and does not alter the path's meaning on the host platform. It is
  idempotent (\<open>replace_slashes_idempotent\<close>). The code at a failing input, on the POSIX
  host: the path of the temporary directory under \<open>/home/u/out\<close> denotes the directory
  \<open>temp_extract\<close> in \<open>/home/u/out\<close>; the path after lines 80 to 91 denotes an entry of the
  working directory whose name is the whole path with backslashes.
\<close>

theorem normalisation_moves_posix_path:
  "temp_of posix_host ''/home/u/out'' = ''/home/u/out/temp_extract'' \<and>
   loc posix_host ''/home/u/out/temp_extract'' = [''home'', ''u'', ''out'', ''temp_extract''] \<and>
   loc posix_host (rebuild (replace_slashes ''/home/u/out/temp_extract'')) =
     [''home'', ''u'',
      [bslash] @ ''home'' @ [bslash] @ ''u'' @ [bslash] @ ''out'' @ [bslash] @ ''temp_extract'']"
  by code_simp

text \<open>On the Windows host the same rewriting keeps the location.\<close>

lemma normalisation_keeps_windows_path:
  "loc windows_host (rebuild (replace_slashes (temp_of windows_host ''C:/out''))) =
   loc windows_host (temp_of windows_host ''C:/out'')"
  by code_simp

text \<open>
  Claim C8. There are paths \<open>path\<close> and \<open>start\<close> such that \<open>start\<close> occurs in \<open>path\<close> as
  a substring without being an ancestor of it segment by segment, and for which
  \<open>custom_relpath\<close> returns a wrong result instead of failing: for
  \<open>/app/resources-backup\<close> and \<open>/app/resources\<close> it returns \<open>-backup\<close>, which joined to
  \<open>start\<close> does not lead to \<open>path\<close>.
\<close>

theorem substring_start_gives_wrong_relpath:
  "\<exists>path start_path.
     contains start_path path \<and> \<not> segment_ancestor Posix start_path path \<and>
     custom_relpath posix_host path start_path = ''-backup'' \<and>
     loc posix_host (join Posix start_path [custom_relpath posix_host path start_path]) \<noteq>
       loc posix_host path"
proof -
  have "contains ''/app/resources'' ''/app/resources-backup'' \<and>
     \<not> segment_ancestor Posix ''/app/resources'' ''/app/resources-backup'' \<and>
     custom_relpath posix_host ''/app/resources-backup'' ''/app/resources'' = ''-backup'' \<and>
     loc posix_host (join Posix ''/app/resources''
        [custom_relpath posix_host ''/app/resources-backup'' ''/app/resources'']) \<noteq>
       loc posix_host ''/app/resources-backup''"
    by code_simp
  then show ?thesis by blast
qed

subsection \<open>The segments of a path returned by \<open>custom_relpath\<close>\<close>
















end
